theory Spec2Isabelle
  imports Complex_Main "HOL-Library.Sublist"
begin

section \<open>Strings\<close>

text \<open>
  Python strings are modelled as \<open>string\<close>, read as UTF-8 bytes. The string methods
  below act on the ASCII range as Python's do and leave every other byte alone, so the model
  is exact on ASCII text. The Turkish letters of the source's literals are written as
  their UTF-8 bytes.
\<close>

definition ascii_lowercase :: string where
  "ascii_lowercase = ''abcdefghijklmnopqrstuvwxyz''"

definition ascii_uppercase :: string where
  "ascii_uppercase = ''ABCDEFGHIJKLMNOPQRSTUVWXYZ''"

definition upper_char :: "char \<Rightarrow> char" where
  "upper_char c =
     (case map_of (zip ascii_lowercase ascii_uppercase) c of
        None \<Rightarrow> c
      | Some u \<Rightarrow> u)"

text \<open>\<open>str.upper()\<close>\<close>

definition upper :: "string \<Rightarrow> string" where
  "upper s = map upper_char s"

text \<open>
  The whitespace of \<open>str.strip()\<close> in the ASCII range: tab, line feed, vertical tab, form feed,
  carriage return, the four separators 0x1C to 0x1F, and the space.
\<close>

definition whitespace :: string where
  "whitespace =
     [CHR 0x09, CHR 0x0A, CHR 0x0B, CHR 0x0C, CHR 0x0D,
      CHR 0x1C, CHR 0x1D, CHR 0x1E, CHR 0x1F, CHR 0x20]"

definition isspace :: "char \<Rightarrow> bool" where
  "isspace c = (c \<in> set whitespace)"

text \<open>\<open>str.strip()\<close>\<close>

definition strip :: "string \<Rightarrow> string" where
  "strip s = rev (dropWhile isspace (rev (dropWhile isspace s)))"

text \<open>\<open>d.get(k, default)\<close> on a dictionary literal, kept as its list of items.\<close>

definition dict_get :: "('k \<times> 'v) list \<Rightarrow> 'k \<Rightarrow> 'v \<Rightarrow> 'v" where
  "dict_get d k dflt = (case map_of d k of None \<Rightarrow> dflt | Some v \<Rightarrow> v)"

section \<open>Symbol formatting (HaberVerileriniAlma.py)\<close>

definition common_symbols :: "(string \<times> string) list" where
  "common_symbols =
     [(''THYAO'', ''THYAO.IS''),
      (''ASELS'', ''ASELS.IS''),
      (''ISCTR'', ''ISCTR.IS''),
      (''GARAN'', ''GARAN.IS'')]"

definition bist_names :: "string list" where
  "bist_names =
     [''BIST'', ''BORSA ISTANBUL'',
      ''BORSA '' @ [CHR 0xC4, CHR 0xB0] @ ''STANBUL'', ''XU100'']"

definition us_names :: "string list" where
  "us_names = [''NASDAQ'', ''NYSE'', ''US'', ''USA'', ''AMERICA'']"

definition format_stock_symbol :: "string \<Rightarrow> string \<Rightarrow> string" where
  "format_stock_symbol symbol0 exchange0 =
     (let symbol = strip (upper symbol0) in
      if CHR ''.'' \<in> set symbol then symbol
      else
        let exchange = strip (upper exchange0) in
        if exchange0 \<noteq> [] \<and> exchange \<in> set bist_names then symbol @ ''.IS''
        else if exchange0 \<noteq> [] \<and> exchange \<in> set us_names then symbol
        else dict_get common_symbols symbol symbol)"

definition index_map :: "(string \<times> string) list" where
  "index_map =
     [(''NASDAQ'', ''^IXIC''),
      (''NASDQ'', ''^IXIC''),
      (''S&P'', ''^GSPC''),
      (''S&P500'', ''^GSPC''),
      (''S&P 500'', ''^GSPC''),
      (''SP500'', ''^GSPC''),
      (''DOW'', ''^DJI''),
      (''DOWJONES'', ''^DJI''),
      (''DOW JONES'', ''^DJI''),
      (''BIST'', ''XU100.IS''),
      (''BIST100'', ''XU100.IS''),
      (''XU100'', ''XU100.IS''),
      (''BORSA ISTANBUL'', ''XU100.IS''),
      (''DAX'', ''^GDAXI''),
      (''FTSE'', ''^FTSE''),
      (''FTSE100'', ''^FTSE''),
      (''NIKKEI'', ''^N225''),
      (''VIX'', ''^VIX'')]"

definition format_index_symbol :: "string \<Rightarrow> string" where
  "format_index_symbol index_name0 =
     (let index_name = strip (upper index_name0) in
      dict_get index_map index_name index_name)"

section \<open>Time-of-day windows (merge_stock_and_news_data)\<close>

definition sabah :: string where
  "sabah = ''sabah''"

definition ogle :: string where
  "ogle = [CHR 0xC3, CHR 0xB6, CHR 0xC4, CHR 0x9F] @ ''le''"

definition aksam :: string where
  "aksam = ''ak'' @ [CHR 0xC5, CHR 0x9F] @ ''am''"

definition diger :: string where
  "diger = ''di'' @ [CHR 0xC4, CHR 0x9F] @ ''er''"

definition get_time_of_day :: "int \<Rightarrow> string" where
  "get_time_of_day hour =
     (if 9 \<le> hour \<and> hour < 12 then sabah
      else if 12 \<le> hour \<and> hour < 14 then ogle
      else if 14 \<le> hour \<and> hour < 17 then aksam
      else diger)"

section \<open>Exceptions\<close>

text \<open>
  The exception classes the sources raise or catch. \<open>RequestException\<close> carries the status
  code of its response when it has one. \<open>ConnectionError\<close> and \<open>IOError\<close> are the
  built-in classes; \<open>Exception\<close> stands for every other class.
\<close>

datatype exn =
    RequestException "int option"
  | ConnectionError
  | ValueError
  | IOError
  | KeyError
  | AttributeError
  | TypeError
  | Exception

section \<open>Data frames\<close>

text \<open>
  A calendar day is its proleptic ordinal (\<open>date.toordinal()\<close>), so that days are ordered
  and \<open>timedelta(days=n)\<close> is addition. A datetime is a day with an hour and a minute.
\<close>

record timestamp =
  ts_date :: int
  ts_hour :: int
  ts_minute :: int

text \<open>
  A row of a news frame. A cell is \<open>None\<close> when pandas holds a missing value there
  (\<open>None\<close>, \<open>NaN\<close> or \<open>NaT\<close>). A news frame has its list of column names beside its
  rows: a field of a row means something only when its column is in the frame.
\<close>

record news_row =
  date :: "int option"
  publishedAt :: "timestamp option"
  title :: "string option"
  description :: "string option"
  content :: "string option"
  url :: "string option"
  sentiment_compound :: "rat option"
  sentiment_pos :: "rat option"
  sentiment_neg :: "rat option"
  sentiment_neu :: "rat option"
  sentiment_label :: "string option"

record news_frame =
  columns :: "string list"
  rows :: "news_row list"


definition news_is_empty :: "news_frame \<Rightarrow> bool" where
  "news_is_empty df = (rows df = [] \<or> columns df = [])"

text \<open>
  A daily bar of a stock frame, with the columns the sources read. A stock frame is the list of
  its rows; it holds the rows of the stock and of the index, told apart by \<open>Symbol\<close>.
\<close>

record stock_row =
  Date :: timestamp
  Open :: rat
  High :: rat
  Low :: rat
  Close :: rat
  Volume :: rat
  Symbol :: string

section \<open>Removing repeated rows (pandas drop_duplicates, keep = first)\<close>

text \<open>
  \<open>df.drop_duplicates(subset=[col], keep="first")\<close> walks the rows in order and keeps a row
  when no earlier row has the same value in the column. Missing values count as equal to each
  other, which the option type gives: \<open>None = None\<close>.
\<close>

fun drop_duplicates_seen :: "('r \<Rightarrow> 'k) \<Rightarrow> 'k list \<Rightarrow> 'r list \<Rightarrow> 'r list" where
  "drop_duplicates_seen key seen [] = []"
| "drop_duplicates_seen key seen (r # rs) =
     (if key r \<in> set seen then drop_duplicates_seen key seen rs
      else r # drop_duplicates_seen key (key r # seen) rs)"


section \<open>retry_with_backoff (HaberVerileriniAlma.py, Haberveri.py)\<close>







section \<open>get_news_data and get_alternative_news_data (HaberVerileriniAlma.py)\<close>







subsection \<open>add_sentiment_scores\<close>





subsection \<open>get_alternative_news_data\<close>




subsection \<open>get_news_data\<close>








section \<open>transform_data (data_preprocessing.py)\<close>





definition notr :: string where
  "notr = ''N'' @ [CHR 0xC3, CHR 0xB6] @ ''tr''"







section \<open>process_text_data (data_preprocessing.py)\<close>

subsection \<open>The number in the model's answer\<close>

text \<open>
  \<open>re.search(r'(-?\d+(\.\d+)?)', text)\<close> finds the leftmost place where a number starts: a
  digit, or a minus sign with a digit right after it. From there it takes the digits and, when
  a dot with a digit after it follows, the dot and the digits after it. \<open>float\<close> of the match
  is its value, kept exact here.
\<close>

definition digits :: string where
  "digits = ''0123456789''"

definition isdigit :: "char \<Rightarrow> bool" where
  "isdigit c = (c \<in> set digits)"

definition digit_value :: "char \<Rightarrow> nat" where
  "digit_value c = length (takeWhile (\<lambda>d. d \<noteq> c) digits)"

definition nat_of_digits :: "string \<Rightarrow> nat" where
  "nat_of_digits s = foldl (\<lambda>n c. 10 * n + digit_value c) 0 s"

record number_match =
  negative :: bool
  whole :: string
  fraction :: string

definition number_at :: "bool \<Rightarrow> string \<Rightarrow> number_match" where
  "number_at neg s =
     (let rest = dropWhile isdigit s in
      \<lparr>negative = neg,
       whole = takeWhile isdigit s,
       fraction =
         (case rest of
            c # c' # after \<Rightarrow>
              if c = CHR ''.'' \<and> isdigit c' then takeWhile isdigit (c' # after) else []
          | _ \<Rightarrow> [])\<rparr>)"

fun search_number :: "string \<Rightarrow> number_match option" where
  "search_number [] = None"
| "search_number [c] = (if isdigit c then Some (number_at False [c]) else None)"
| "search_number (c # c' # s) =
     (if c = CHR ''-'' \<and> isdigit c' then Some (number_at True (c' # s))
      else if isdigit c then Some (number_at False (c # c' # s))
      else search_number (c' # s))"

definition float_of_match :: "number_match \<Rightarrow> rat" where
  "float_of_match m =
     (let magnitude =
            of_nat (nat_of_digits (whole m)) +
            of_nat (nat_of_digits (fraction m)) / 10 ^ length (fraction m)
      in if negative m then - magnitude else magnitude)"

subsection \<open>The function\<close>

text \<open>
  What the function reads from outside: the API key of the environment, the values
  \<open>np.random.uniform(-1, 1)\<close> draws (one for each row), and the answers of the model. The two
  calls made for the row at position \<open>idx\<close> with text \<open>news_text\<close> either raise or give the
  text of an answer.
\<close>

record gemini =
  GEMINI_API_KEY :: "string option"
  uniform :: "nat \<Rightarrow> rat"
  sentiment_response :: "nat \<Rightarrow> string \<Rightarrow> exn + string"
  topics_response :: "nat \<Rightarrow> string \<Rightarrow> exn + string"

record scored_row =
  source_row :: news_row
  sentiment_score :: rat
  main_topics :: "string option"
  sentiment_category :: "string option"

text \<open>
  \<open>pd.cut(x, bins=[-1, -0.33, 0.33, 1], labels=['Negatif', <notr>, 'Pozitif'])\<close>; the
  left edge \<open>-1\<close> is in no interval.
\<close>

definition sentiment_cut :: "rat \<Rightarrow> string option" where
  "sentiment_cut x =
     (if x \<le> - 1 \<or> 1 < x then None
      else if x \<le> - (33 / 100) then Some ''Negatif''
      else if x \<le> 33 / 100 then Some notr
      else Some ''Pozitif'')"

text \<open>
  \<open>' '.join(filter(None, [row.get('title', ''), row.get('description', '')]))\<close>: a missing
  cell is Python's \<open>None\<close>, which \<open>filter\<close> drops as it drops the empty string.
\<close>

definition news_text_of :: "news_row \<Rightarrow> string" where
  "news_text_of row =
     (case filter (\<lambda>s. s \<noteq> []) (map (case_option [] id) [title row, description row]) of
        [] \<Rightarrow> []
      | [a] \<Rightarrow> a
      | a # b # _ \<Rightarrow> a @ '' '' @ b)"

text \<open>
  The body of the \<open>try\<close> for one row, up to \<open>sentiment_scores.append(sentiment_score)\<close>: the
  score read from the answer, clamped.
\<close>

definition parse_score :: "string \<Rightarrow> rat" where
  "parse_score sentiment_text =
     (case search_number (strip sentiment_text) of
        Some m \<Rightarrow> max (- 1) (min 1 (float_of_match m))
      | None \<Rightarrow> 0)"

text \<open>
  The loop over the rows. It carries the two lists it appends to. When the first call raises,
  the handler appends 0 and an empty topic. When the second call raises, the score of the row
  is already in the list, and the handler appends 0 after it.
\<close>

fun score_rows ::
  "gemini \<Rightarrow> nat \<Rightarrow> news_row list \<Rightarrow> rat list \<times> string list \<Rightarrow> rat list \<times> string list"
where
  "score_rows g idx [] acc = acc"
| "score_rows g idx (row # df) (sentiment_scores, topics) =
     (let news_text = news_text_of row in
      if news_text = [] \<or> length (strip news_text) < 10
      then score_rows g (idx + 1) df (sentiment_scores @ [0], topics @ [''''])
      else
        case sentiment_response g idx news_text of
          Inl e \<Rightarrow> score_rows g (idx + 1) df (sentiment_scores @ [0], topics @ [''''])
        | Inr sentiment_text \<Rightarrow>
            let sentiment_scores1 = sentiment_scores @ [parse_score sentiment_text] in
            case topics_response g idx news_text of
              Inl e \<Rightarrow> score_rows g (idx + 1) df (sentiment_scores1 @ [0], topics @ [''''])
            | Inr topics_text \<Rightarrow>
                score_rows g (idx + 1) df (sentiment_scores1, topics @ [strip topics_text]))"

text \<open>
  \<open>df['sentiment_score'] = sentiment_scores\<close> raises a ValueError when the list and the frame
  differ in length. Without a key the scores are the random draws and there is no topics column.
\<close>

definition process_text_data :: "gemini \<Rightarrow> news_row list \<Rightarrow> exn + scored_row list" where
  "process_text_data g df =
     (if df = [] then Inr []
      else if GEMINI_API_KEY g = None \<or> GEMINI_API_KEY g = Some []
      then Inr (map (\<lambda>(i, row).
                  \<lparr>source_row = row, sentiment_score = uniform g i, main_topics = None,
                   sentiment_category = sentiment_cut (uniform g i)\<rparr>)
                (zip [0..<length df] df))
      else
        let (sentiment_scores, topics) = score_rows g 0 df ([], []) in
        if length sentiment_scores \<noteq> length df \<or> length topics \<noteq> length df
        then Inl ValueError
        else Inr (map (\<lambda>(row, score, topic).
                    \<lparr>source_row = row, sentiment_score = score, main_topics = Some topic,
                     sentiment_category = sentiment_cut score\<rparr>)
                  (zip df (zip sentiment_scores topics))))"

text \<open>What the loop appends to \<open>sentiment_scores\<close> for one row: one score, or two.\<close>

definition row_scores :: "gemini \<Rightarrow> nat \<Rightarrow> news_row \<Rightarrow> rat list" where
  "row_scores g idx row =
     (let news_text = news_text_of row in
      if news_text = [] \<or> length (strip news_text) < 10 then [0]
      else
        case sentiment_response g idx news_text of
          Inl e \<Rightarrow> [0]
        | Inr sentiment_text \<Rightarrow>
            (case topics_response g idx news_text of
               Inl e \<Rightarrow> [parse_score sentiment_text, 0]
             | Inr topics_text \<Rightarrow> [parse_score sentiment_text]))"

section \<open>merge_stock_and_news_data (HaberVerileriniAlma.py)\<close>

text \<open>
  The merged frame keeps the bars of the stock frame and appends columns to them. The appended
  columns are named while the function runs, so a merged row is a bar with the appended cells
  by column name, and the merged frame has the list of the appended column names. A cell is
  missing (NaN), a number, a text or a day.
\<close>

datatype entry = Missing | Number rat | Text string | Day int

record merged_row =
  stock_bar :: stock_row
  appended :: "(string \<times> entry) list"

record merged_frame =
  new_columns :: "string list"
  merged_rows :: "merged_row list"

definition entry_of :: "merged_row \<Rightarrow> string \<Rightarrow> entry" where
  "entry_of row c = (case map_of (appended row) c of None \<Rightarrow> Missing | Some v \<Rightarrow> v)"

subsection \<open>The pandas operations\<close>

text \<open>The mean of a group skips the missing values; it is missing when nothing is left.\<close>

definition mean_of :: "rat option list \<Rightarrow> rat option" where
  "mean_of xs =
     (let vs = List.map_filter id xs in
      if vs = [] then None else Some (sum_list vs / of_nat (length vs)))"

definition number :: "rat option \<Rightarrow> entry" where
  "number x = (case x of None \<Rightarrow> Missing | Some v \<Rightarrow> Number v)"

text \<open>\<open>sep.join(xs)\<close>, and \<open>astype(str)\<close> of a title cell (a missing title prints as None).\<close>

fun join :: "string \<Rightarrow> string list \<Rightarrow> string" where
  "join sep [] = []"
| "join sep [x] = x"
| "join sep (x # y # ys) = x @ sep @ join sep (y # ys)"

definition astype_str :: "string option \<Rightarrow> string" where
  "astype_str t = (case t of None \<Rightarrow> ''None'' | Some s \<Rightarrow> s)"

text \<open>\<open>'sentiment' in col\<close>\<close>

definition contains :: "string \<Rightarrow> string \<Rightarrow> bool" where
  "contains s sub = sublist sub s"

text \<open>\<open>fillna(0)\<close> and \<open>fillna("Haber yok")\<close> on one cell.\<close>

definition fillna :: "entry \<Rightarrow> entry \<Rightarrow> entry" where
  "fillna v e = (if e = Missing then v else e)"

subsection \<open>The news by day and by window\<close>

text \<open>
  Without a \<open>publishedAt\<close> column each row gets its day with a random hour of the business
  hours and a random minute; \<open>datetime.combine\<close> raises a TypeError on a missing day.
\<close>

fun assign_times :: "(nat \<Rightarrow> int \<times> int) \<Rightarrow> nat \<Rightarrow> news_row list \<Rightarrow> exn + news_row list" where
  "assign_times random i [] = Inr []"
| "assign_times random i (row # df) =
     (case date row of
        None \<Rightarrow> Inl TypeError
      | Some d \<Rightarrow>
          (case assign_times random (i + 1) df of
             Inl e \<Rightarrow> Inl e
           | Inr df' \<Rightarrow>
               Inr (row\<lparr>publishedAt :=
                      Some \<lparr>ts_date = d, ts_hour = fst (random i), ts_minute = snd (random i)\<rparr>\<rparr>
                    # df')))"

definition news_with_time :: "(nat \<Rightarrow> int \<times> int) \<Rightarrow> news_frame \<Rightarrow> exn + news_row list" where
  "news_with_time random news_data =
     (if ''publishedAt'' \<notin> set (columns news_data) then
        if ''date'' \<notin> set (columns news_data) then Inl KeyError
        else assign_times random 0 (rows news_data)
      else Inr (rows news_data))"

text \<open>
  \<open>news_with_time["date"] = news_with_time["publishedAt"].dt.date\<close> and the \<open>time_of_day\<close>
  column. A row without a datetime has no day; \<open>groupby\<close> leaves such rows out.
\<close>

definition news_day :: "news_row \<Rightarrow> int option" where
  "news_day row = map_option ts_date (publishedAt row)"

definition time_of_day :: "news_row \<Rightarrow> string" where
  "time_of_day row =
     (case publishedAt row of
        None \<Rightarrow> diger
      | Some t \<Rightarrow> get_time_of_day (ts_hour t))"

text \<open>The keys of \<open>groupby("date")\<close>, and the windows that become columns of the pivot, sorted.\<close>

definition news_days :: "news_row list \<Rightarrow> int list" where
  "news_days df = sort (remdups (List.map_filter news_day df))"

definition windows :: "news_row list \<Rightarrow> string list" where
  "windows df =
     filter (\<lambda>w. list_ex (\<lambda>row. news_day row \<noteq> None \<and> time_of_day row = w) df)
       [aksam, diger, sabah, ogle]"

definition of_day :: "int \<Rightarrow> news_row list \<Rightarrow> news_row list" where
  "of_day d df = filter (\<lambda>row. news_day row = Some d) df"

definition of_window :: "int \<Rightarrow> string \<Rightarrow> news_row list \<Rightarrow> news_row list" where
  "of_window d w df = filter (\<lambda>row. news_day row = Some d \<and> time_of_day row = w) df"

subsection \<open>The sentiment table\<close>

definition daily_columns :: "string list" where
  "daily_columns =
     [''daily_sentiment'', ''daily_pos'', ''daily_neg'', ''daily_neu'', ''daily_news_titles'']"

text \<open>The row of \<open>daily_sentiment\<close> for a day, after the renaming of the columns.\<close>

definition daily_cells :: "news_row list \<Rightarrow> int \<Rightarrow> (string \<times> entry) list" where
  "daily_cells df d =
     (let group = of_day d df in
      [(''daily_sentiment'', number (mean_of (map sentiment_compound group))),
       (''daily_pos'', number (mean_of (map sentiment_pos group))),
       (''daily_neg'', number (mean_of (map sentiment_neg group))),
       (''daily_neu'', number (mean_of (map sentiment_neu group))),
       (''daily_news_titles'', Text (take 500 (join ''; '' (map (\<lambda>row. astype_str (title row)) group))))])"

text \<open>
  The columns of \<open>time_pivot\<close> and its row for a day: a window without news on that day is
  missing in the pivot, and the sentiment cells are then filled with 0.
\<close>

definition pivot_columns :: "news_row list \<Rightarrow> string list" where
  "pivot_columns df =
     map (\<lambda>w. ''sentiment_compound_'' @ w) (windows df) @ map (\<lambda>w. ''title_'' @ w) (windows df)"

definition pivot_cells :: "news_row list \<Rightarrow> int \<Rightarrow> (string \<times> entry) list" where
  "pivot_cells df d =
     map (\<lambda>w. (''sentiment_compound_'' @ w,
                fillna (Number 0) (number (mean_of (map sentiment_compound (of_window d w df))))))
       (windows df) @
     map (\<lambda>w. (''title_'' @ w,
                if of_window d w df = [] then Missing
                else Text (join ''; '' (take 2 (map (\<lambda>row. astype_str (title row)) (of_window d w df))))))
       (windows df)"

text \<open>The row of \<open>daily_news\<close> for a day, when the news have no sentiment column.\<close>

definition news_cells :: "news_row list \<Rightarrow> int \<Rightarrow> (string \<times> entry) list" where
  "news_cells df d =
     [(''daily_news_titles'', Text (join ''; '' (map (\<lambda>row. astype_str (title row)) (of_day d df))))]"

subsection \<open>The merge\<close>

text \<open>
  \<open>pd.merge(stock_df, right, on="date", how="left")\<close>, where \<open>right\<close> has one row for each of
  its days: every bar stays, in its place, with the cells of its day, or with missing cells
  in the columns of \<open>right\<close> when \<open>right\<close> has no such day. The \<open>date\<close> column of the
  bars comes first among the appended columns.
\<close>

definition left_merge ::
  "stock_row list \<Rightarrow> string list \<Rightarrow> int list \<Rightarrow> (int \<Rightarrow> (string \<times> entry) list) \<Rightarrow> merged_row list" where
  "left_merge stock_df right_columns right_days right_cells =
     map (\<lambda>b.
        let d = ts_date (Date b) in
        \<lparr>stock_bar = b,
         appended = (''date'', Day d) #
           (if d \<in> set right_days then right_cells d
            else map (\<lambda>c. (c, Missing)) right_columns)\<rparr>)
       stock_df"

text \<open>The two loops that fill the missing cells of the merged frame.\<close>

definition fill_sentiment :: "merged_row \<Rightarrow> merged_row" where
  "fill_sentiment row =
     row\<lparr>appended :=
           map (\<lambda>(col, e). (col, if contains col ''sentiment'' then fillna (Number 0) e else e))
             (appended row)\<rparr>"

definition fill_titles :: "merged_row \<Rightarrow> merged_row" where
  "fill_titles row =
     row\<lparr>appended :=
           map (\<lambda>(col, e). (col, if col = ''daily_news_titles'' then fillna (Text ''Haber yok'') e else e))
             (appended row)\<rparr>"

text \<open>
  The body of the \<open>try\<close>, from the selection of the bars on. An aggregation over a column
  that the news frame lacks raises a KeyError.
\<close>

definition merge_body ::
  "(nat \<Rightarrow> int \<times> int) \<Rightarrow> stock_row list \<Rightarrow> news_frame \<Rightarrow> exn + merged_frame" where
  "merge_body random stock_df news_data =
     (let filled = (\<lambda>cols merged.
            Inr \<lparr>new_columns = ''date'' # cols,
                 merged_rows = map (\<lambda>row. fill_titles (fill_sentiment row)) merged\<rparr>)
      in
      if news_is_empty news_data then filled [] (left_merge stock_df [] [] (\<lambda>d. []))
      else
        case news_with_time random news_data of
          Inl e \<Rightarrow> Inl e
        | Inr df \<Rightarrow>
            if ''sentiment_compound'' \<in> set (columns news_data) then
              if \<not> list_all (\<lambda>c. c \<in> set (columns news_data))
                     [''sentiment_pos'', ''sentiment_neg'', ''sentiment_neu'', ''title'']
              then Inl KeyError
              else
                filled (daily_columns @ pivot_columns df)
                  (left_merge stock_df (daily_columns @ pivot_columns df) (news_days df)
                     (\<lambda>d. daily_cells df d @ pivot_cells df d))
            else if ''title'' \<notin> set (columns news_data) then Inl KeyError
            else
              filled [''daily_news_titles'']
                (left_merge stock_df [''daily_news_titles''] (news_days df) (news_cells df)))"

text \<open>
  The bars of the symbol, or all bars when the symbol has none. An empty stock frame gives
  \<open>pd.DataFrame()\<close>; when the body raises, the handler returns \<open>stock_data\<close> as it came.
\<close>

definition stock_selection :: "stock_row list \<Rightarrow> string \<Rightarrow> stock_row list" where
  "stock_selection stock_data stock_symbol =
     (let stock_df = filter (\<lambda>b. Symbol b = stock_symbol) stock_data in
      if stock_df = [] then stock_data else stock_df)"

definition merge_stock_and_news_data ::
  "(nat \<Rightarrow> int \<times> int) \<Rightarrow> stock_row list \<Rightarrow> news_frame \<Rightarrow> string \<Rightarrow> merged_frame" where
  "merge_stock_and_news_data random stock_data news_data stock_symbol =
     (if stock_data = [] then \<lparr>new_columns = [], merged_rows = []\<rparr>
      else
        case merge_body random (stock_selection stock_data stock_symbol) news_data of
          Inl e \<Rightarrow>
            \<lparr>new_columns = [],
             merged_rows = map (\<lambda>b. \<lparr>stock_bar = b, appended = []\<rparr>) stock_data\<rparr>
        | Inr merged_df \<Rightarrow> merged_df)"

subsection \<open>Two notions for the statements about the merge\<close>


text \<open>The two fillings on a cell of the column \<open>c\<close>, one after the other.\<close>

definition filled_entry :: "string \<Rightarrow> entry \<Rightarrow> entry" where
  "filled_entry c e =
     (let e1 = (if contains c ''sentiment'' then fillna (Number 0) e else e)
      in if c = ''daily_news_titles'' then fillna (Text ''Haber yok'') e1 else e1)"

section \<open>Concrete inputs\<close>



text \<open>One day of a stock and of its index.\<close>

definition day1 :: timestamp where
  "day1 = \<lparr>ts_date = 738000, ts_hour = 0, ts_minute = 0\<rparr>"

definition aapl_bar :: stock_row where
  "aapl_bar = \<lparr>Date = day1, Open = 100, High = 104, Low = 99, Close = 103,
     Volume = 5000, Symbol = ''AAPL''\<rparr>"

definition ixic_bar :: stock_row where
  "ixic_bar = \<lparr>Date = day1, Open = 200, High = 202, Low = 199, Close = 201,
     Volume = 90000, Symbol = ''^IXIC''\<rparr>"


text \<open>
  A news row with a long enough title, a model that answers both calls, and one whose second
  call (the topics) raises.
\<close>

definition apple_row :: news_row where
  "apple_row = \<lparr>date = None, publishedAt = None, title = Some ''Apple beats estimates'',
     description = Some [], content = None, url = None, sentiment_compound = None,
     sentiment_pos = None, sentiment_neg = None, sentiment_neu = None, sentiment_label = None\<rparr>"

definition gemini_ok :: gemini where
  "gemini_ok = \<lparr>GEMINI_API_KEY = Some ''key'', uniform = (\<lambda>i. 0),
     sentiment_response = (\<lambda>i t. Inr ''Score: 3.5''),
     topics_response = (\<lambda>i t. Inr ''earnings'')\<rparr>"

definition gemini_topics_down :: gemini where
  "gemini_topics_down = gemini_ok\<lparr>topics_response := (\<lambda>i t. Inl Exception)\<rparr>"








text \<open>
  Three scored news of 2023-02-01, two in the morning and one in the afternoon; the same frame
  with the compound score as its only sentiment column; a bar of that day; and the merge of
  the scored news with a stock frame of two AAPL bars and one index bar.
\<close>

definition news_at :: "int \<Rightarrow> int \<Rightarrow> string \<Rightarrow> rat \<Rightarrow> news_row" where
  "news_at d h t s =
     \<lparr>date = Some d, publishedAt = Some \<lparr>ts_date = d, ts_hour = h, ts_minute = 0\<rparr>,
      title = Some t, description = None, content = None, url = None,
      sentiment_compound = Some s, sentiment_pos = Some 0, sentiment_neg = Some 0,
      sentiment_neu = Some 1, sentiment_label = None\<rparr>"

definition scored_news :: news_frame where
  "scored_news =
     \<lparr>columns = [''date'', ''publishedAt'', ''title'', ''description'', ''content'', ''url'',
                 ''sentiment_pos'', ''sentiment_neu'', ''sentiment_neg'', ''sentiment_compound'',
                 ''sentiment_label''],
      rows = [news_at 738552 10 ''up'' (1 / 2), news_at 738552 11 ''more'' (1 / 4),
              news_at 738552 15 ''down'' (- (1 / 2))]\<rparr>"


definition news_day_bar :: stock_row where
  "news_day_bar = aapl_bar\<lparr>Date := \<lparr>ts_date = 738552, ts_hour = 0, ts_minute = 0\<rparr>\<rparr>"

definition nine :: "nat \<Rightarrow> int \<times> int" where
  "nine i = (9, 0)"

definition scored_merge :: merged_frame where
  "scored_merge =
     merge_stock_and_news_data nine [news_day_bar, aapl_bar, ixic_bar] scored_news ''AAPL''"

section \<open>Properties of the string helpers\<close>

lemma upper_char_idem: "upper_char (upper_char c) = upper_char c"
  by (simp add: upper_char_def ascii_lowercase_def ascii_uppercase_def)

lemma upper_idem: "upper (upper s) = upper s"
  by (simp add: upper_def upper_char_idem)

lemma isspace_upper_char: "isspace (upper_char c) = isspace c"
  by (auto simp add: upper_char_def ascii_lowercase_def ascii_uppercase_def isspace_def whitespace_def)

lemma dropWhile_upper: "dropWhile isspace (upper s) = upper (dropWhile isspace s)"
  unfolding upper_def by (induction s) (auto simp: isspace_upper_char)

lemma upper_strip: "upper (strip s) = strip (upper s)"
  by (metis dropWhile_upper upper_def strip_def rev_map)

lemma strip_fixed: "s = [] \<or> (\<not> isspace (hd s) \<and> \<not> isspace (last s)) \<Longrightarrow> strip s = s"
proof (cases "s = []")
  case True
  then show ?thesis by (simp add: strip_def)
next
  case False
  assume "s = [] \<or> (\<not> isspace (hd s) \<and> \<not> isspace (last s))"
  with False have h: "\<not> isspace (hd s)" and l: "\<not> isspace (last s)" by auto
  from h have 1: "dropWhile isspace s = s" by (simp add: dropWhile_eq_self_iff)
  from l False have 2: "dropWhile isspace (rev s) = rev s"
    by (simp add: dropWhile_eq_self_iff hd_rev)
  show ?thesis by (simp add: strip_def 1 2)
qed

lemma last_dropWhile_keep: "dropWhile P xs \<noteq> [] \<Longrightarrow> last (dropWhile P xs) = last xs"
  by (induction xs) auto

lemma strip_ends: "strip s = [] \<or> (\<not> isspace (hd (strip s)) \<and> \<not> isspace (last (strip s)))"
proof (cases "strip s = []")
  case True
  then show ?thesis by simp
next
  case False
  define d where "d = dropWhile isspace s"
  define e where "e = dropWhile isspace (rev d)"
  have s: "strip s = rev e" by (simp add: strip_def d_def e_def)
  with False have e: "e \<noteq> []" by simp
  then have d: "d \<noteq> []" by (auto simp: e_def)
  have "\<not> isspace (hd e)" using e unfolding e_def by (rule hd_dropWhile)
  moreover have "last e = last (rev d)" using e unfolding e_def by (rule last_dropWhile_keep)
  moreover have "\<not> isspace (hd d)" using d unfolding d_def by (rule hd_dropWhile)
  ultimately show ?thesis using e d by (simp add: s hd_rev last_rev)
qed

lemma strip_idem: "strip (strip s) = strip s"
  using strip_ends [of s] by (rule strip_fixed)

lemma normalise_fixed: "strip (upper (strip (upper s))) = strip (upper s)"
  by (simp add: upper_strip [symmetric] upper_idem strip_idem)

lemma stock_values_all:
  "\<forall>v \<in> snd ` set common_symbols. strip (upper v) = v \<and> CHR ''.'' \<in> set v"
  by code_simp

lemma index_values_all:
  "\<forall>v \<in> snd ` set index_map. strip (upper v) = v \<and> map_of index_map v = None"
  by code_simp

section \<open>Properties of drop_duplicates\<close>



lemma dds_subseq: "subseq (drop_duplicates_seen key seen rs) rs"
  by (induction rs arbitrary: seen) auto




section \<open>Properties of the retry loop\<close>














section \<open>Properties of the fetch loop\<close>



section \<open>Properties of transform_data\<close>



section \<open>Properties of process_text_data\<close>

lemma parse_score_range: "- 1 \<le> parse_score t \<and> parse_score t \<le> 1"
  by (simp add: parse_score_def split: option.split)

lemma row_scores_range: "x \<in> set (row_scores g idx row) \<Longrightarrow> - 1 \<le> x \<and> x \<le> 1"
  using parse_score_range
  by (auto simp: row_scores_def Let_def split: if_splits sum.splits)

lemma row_scores_nonempty: "1 \<le> length (row_scores g idx row)"
  by (simp add: row_scores_def Let_def split: sum.splits)

lemma score_rows_fst:
  "fst (score_rows g idx df (ss, ts)) =
     ss @ concat (map (\<lambda>(i, row). row_scores g i row) (zip [idx..<idx + length df] df))"
proof (induction df arbitrary: idx ss ts)
  case Nil
  then show ?case by simp
next
  case (Cons row df)
  have z: "zip [idx..<idx + length (row # df)] (row # df) =
      (idx, row) # zip [Suc idx..<Suc idx + length df] df"
    by (subst upt_rec) simp
  show ?case
    unfolding z
    by (simp add: Cons.IH row_scores_def Let_def split: sum.splits)
qed

lemma concat_singletons:
  assumes "\<forall>x \<in> set xs. 1 \<le> length (f x)"
    and "length (concat (map f xs)) = length xs"
  shows "concat (map f xs) = map (\<lambda>x. hd (f x)) xs \<and> (\<forall>x \<in> set xs. length (f x) = 1)"
  using assms
proof (induction xs)
  case Nil
  then show ?case by simp
next
  case (Cons x xs)
  have ge: "length xs \<le> length (concat (map f xs))"
    using Cons.prems(1)
  proof (induction xs)
    case Nil
    then show ?case by simp
  next
    case (Cons y ys)
    then have "1 \<le> length (f y)" and "length ys \<le> length (concat (map f ys))" by auto
    then show ?case by simp
  qed
  have one: "1 \<le> length (f x)" using Cons.prems(1) by simp
  from Cons.prems(2) have "length (f x) + length (concat (map f xs)) = Suc (length xs)" by simp
  with ge one have lx: "length (f x) = 1" and lr: "length (concat (map f xs)) = length xs" by linarith+
  from lx obtain a where a: "f x = [a]" by (cases "f x") auto
  from Cons.IH lr Cons.prems(1) have "concat (map f xs) = map (\<lambda>x. hd (f x)) xs \<and> (\<forall>x \<in> set xs. length (f x) = 1)"
    by simp
  then show ?case using a by simp
qed


lemma score_rows_exact:
  assumes "length (fst (score_rows g 0 df ([], []))) = length df"
  shows "fst (score_rows g 0 df ([], [])) = map (\<lambda>(i, row). hd (row_scores g i row)) (zip [0..<length df] df)
     \<and> (\<forall>(i, row) \<in> set (zip [0..<length df] df). length (row_scores g i row) = 1)"
proof -
  let ?f = "\<lambda>(i, row). row_scores g i row"
  let ?xs = "zip [0..<length df] df"
  have f: "fst (score_rows g 0 df ([], [])) = concat (map ?f ?xs)"
    using score_rows_fst [of g 0 df "[]" "[]"] by simp
  have 1: "\<forall>x \<in> set ?xs. 1 \<le> length (?f x)"
    using row_scores_nonempty by (auto simp del: One_nat_def)
  have 2: "length (concat (map ?f ?xs)) = length ?xs"
    using assms f by simp
  from concat_singletons [of ?xs ?f, OF 1 2]
  have "concat (map ?f ?xs) = map (\<lambda>x. hd (?f x)) ?xs" and "\<forall>x \<in> set ?xs. length (?f x) = 1"
    by blast+
  then show ?thesis unfolding f by (auto simp: case_prod_beta)
qed

lemma hd_row_scores:
  "hd (row_scores g i row) =
     (let news_text = news_text_of row in
      if news_text = [] \<or> length (strip news_text) < 10 then 0
      else case sentiment_response g i news_text of
             Inl e \<Rightarrow> 0
           | Inr t \<Rightarrow>
               (case search_number (strip t) of
                  Some m \<Rightarrow> max (- 1) (min 1 (float_of_match m))
                | None \<Rightarrow> 0))"
  by (simp add: row_scores_def Let_def parse_score_def split: sum.splits)

section \<open>Properties of the merge\<close>





lemma fill_bars: "stock_bar (fill_titles (fill_sentiment row)) = stock_bar row"
  by (simp add: fill_titles_def fill_sentiment_def)



lemma map_of_fill:
  "map_of (map (\<lambda>(c, e). (c, g c e)) xs) k = map_option (g k) (map_of xs k)"
  by (induction xs) auto

lemma entry_of_filled:
  "entry_of (fill_titles (fill_sentiment row)) c =
     (case map_of (appended row) c of None \<Rightarrow> Missing | Some e \<Rightarrow> filled_entry c e)"
proof -
  have 1: "map_of (appended (fill_sentiment row)) c =
      map_option (\<lambda>e. if contains c ''sentiment'' then fillna (Number 0) e else e)
        (map_of (appended row) c)"
    unfolding fill_sentiment_def
    using map_of_fill [where g = "\<lambda>col e. if contains col ''sentiment'' then fillna (Number 0) e else e"]
    by simp
  have 2: "map_of (appended (fill_titles r)) c =
      map_option (\<lambda>e. if c = ''daily_news_titles'' then fillna (Text ''Haber yok'') e else e)
        (map_of (appended r) c)" for r
    unfolding fill_titles_def
    using map_of_fill [where g = "\<lambda>col e. if col = ''daily_news_titles'' then fillna (Text ''Haber yok'') e else e"]
    by simp
  show ?thesis
  proof (cases "map_of (appended row) c")
    case None
    then show ?thesis by (simp add: entry_of_def 1 2)
  next
    case (Some e)
    then show ?thesis by (simp add: entry_of_def 1 2 filled_entry_def Let_def)
  qed
qed

lemma filled_entry_sentiment:
  "contains c ''sentiment'' \<Longrightarrow> filled_entry c e \<noteq> Missing \<and> filled_entry c Missing = Number 0"
  by (simp add: filled_entry_def fillna_def Let_def)

lemma titles_not_sentiment: "\<not> contains ''daily_news_titles'' ''sentiment''"
  unfolding contains_def by code_simp

lemma filled_entry_titles:
  "filled_entry ''daily_news_titles'' Missing = Text ''Haber yok''"
  by (simp add: filled_entry_def fillna_def Let_def titles_not_sentiment)

lemma date_not_sentiment: "\<not> contains ''date'' ''sentiment''"
  unfolding contains_def by code_simp

lemma daily_cells_keys: "map fst (daily_cells df d) = daily_columns"
  by (simp add: daily_cells_def daily_columns_def Let_def)

lemma pivot_cells_keys: "map fst (pivot_cells df d) = pivot_columns df"
  by (simp add: pivot_cells_def pivot_columns_def comp_def)

lemma news_cells_keys: "map fst (news_cells df d) = [''daily_news_titles'']"
  by (simp add: news_cells_def)

text \<open>What the body returns: the filled left merge with a table whose rows have the columns.\<close>

lemma merge_body_shape:
  assumes "merge_body random stock_df news_data = Inr m"
  shows "\<exists>cols days cells.
      new_columns m = ''date'' # cols \<and>
      merged_rows m = map (\<lambda>row. fill_titles (fill_sentiment row)) (left_merge stock_df cols days cells) \<and>
      (\<forall>d. map fst (cells d) = cols) \<and>
      (\<forall>df. news_with_time random news_data = Inr df \<longrightarrow> cols \<noteq> [] \<longrightarrow> days = news_days df)"
proof (cases "news_is_empty news_data")
  case True
  with assms have "new_columns m = ''date'' # [] \<and>
      merged_rows m = map (\<lambda>row. fill_titles (fill_sentiment row)) (left_merge stock_df [] [] (\<lambda>d. []))"
    by (auto simp: merge_body_def)
  then show ?thesis by (intro exI [of _ "[]"] exI [of _ "\<lambda>d. []"]) simp
next
  case False
  with assms obtain df where df: "news_with_time random news_data = Inr df"
    by (auto simp: merge_body_def split: sum.splits)
  show ?thesis
  proof (cases "''sentiment_compound'' \<in> set (columns news_data)")
    case True
    with assms False df have "new_columns m = ''date'' # (daily_columns @ pivot_columns df) \<and>
      merged_rows m = map (\<lambda>row. fill_titles (fill_sentiment row))
        (left_merge stock_df (daily_columns @ pivot_columns df) (news_days df)
           (\<lambda>d. daily_cells df d @ pivot_cells df d))"
      by (auto simp: merge_body_def split: if_splits)
    then show ?thesis
      using df
      by (intro exI [of _ "daily_columns @ pivot_columns df"] exI [of _ "news_days df"]
          exI [of _ "\<lambda>d. daily_cells df d @ pivot_cells df d"])
        (simp add: daily_cells_keys pivot_cells_keys)
  next
    case nc: False
    with assms False df have "new_columns m = ''date'' # [''daily_news_titles''] \<and>
      merged_rows m = map (\<lambda>row. fill_titles (fill_sentiment row))
        (left_merge stock_df [''daily_news_titles''] (news_days df) (news_cells df))"
      by (auto simp: merge_body_def split: if_splits)
    then show ?thesis
      using df
      by (intro exI [of _ "[''daily_news_titles'']"] exI [of _ "news_days df"]
          exI [of _ "news_cells df"])
        (simp add: news_cells_keys)
  qed
qed



lemma map_of_keys: "c \<in> set (map fst xs) \<Longrightarrow> \<exists>e. map_of xs c = Some e"
  by (induction xs) auto

lemma map_of_missing:
  "c \<in> set cols \<Longrightarrow> map_of (map (\<lambda>c. (c, Missing)) cols) c = Some Missing"
  by (induction cols) auto

lemma left_merge_row:
  assumes "row \<in> set (left_merge stock_df cols days cells)"
  shows "\<exists>b. row = \<lparr>stock_bar = b, appended = (''date'', Day (ts_date (Date b))) #
               (if ts_date (Date b) \<in> set days then cells (ts_date (Date b))
                else map (\<lambda>c. (c, Missing)) cols)\<rparr>"
  using assms unfolding left_merge_def Let_def by (auto simp only: set_map image_iff) 


lemma merged_row_entry:
  assumes row: "row \<in> set (map (\<lambda>row. fill_titles (fill_sentiment row))
                    (left_merge stock_df cols days cells))"
    and keys: "\<And>d. map fst (cells d) = cols"
    and c: "c \<in> set cols" and cd: "c \<noteq> ''date''"
  shows "\<exists>e. entry_of row c = filled_entry c e \<and>
             (ts_date (Date (stock_bar row)) \<notin> set days \<longrightarrow> e = Missing)"
proof -
  from row obtain row0 where row0: "row0 \<in> set (left_merge stock_df cols days cells)"
    and rr: "row = fill_titles (fill_sentiment row0)"
    by auto
  from left_merge_row [OF row0] obtain b where
    r0: "row0 = \<lparr>stock_bar = b, appended = (''date'', Day (ts_date (Date b))) #
               (if ts_date (Date b) \<in> set days then cells (ts_date (Date b))
                else map (\<lambda>c. (c, Missing)) cols)\<rparr>"
    by blast
  have sb: "stock_bar row = b"
    by (simp add: rr fill_bars r0)
  have ap: "map_of (appended row0) c =
      map_of (if ts_date (Date b) \<in> set days then cells (ts_date (Date b))
                else map (\<lambda>c. (c, Missing)) cols) c"
    using cd by (simp add: r0)
  have en: "entry_of row c = (case map_of (appended row0) c of None \<Rightarrow> Missing | Some e \<Rightarrow> filled_entry c e)"
    unfolding rr by (rule entry_of_filled)
  show ?thesis
  proof (cases "ts_date (Date b) \<in> set days")
    case True
    have "c \<in> set (map fst (cells (ts_date (Date b))))"
      using c keys [of "ts_date (Date b)"] by simp
    then have "\<exists>e. map_of (cells (ts_date (Date b))) c = Some e"
      by (rule map_of_keys)
    then obtain e where e: "map_of (cells (ts_date (Date b))) c = Some e" ..
    have "entry_of row c = filled_entry c e"
      unfolding en ap using True e by simp
    moreover have "ts_date (Date (stock_bar row)) \<in> set days"
      unfolding sb by (rule True)
    ultimately show ?thesis by (intro exI [of _ e]) simp
  next
    case False
    have "map_of (appended row0) c = Some Missing"
      unfolding ap using False c by (simp add: map_of_missing)
    then have "entry_of row c = filled_entry c Missing"
      unfolding en by simp
    then show ?thesis by (intro exI [of _ Missing]) simp
  qed
qed







lemma daily_sentiment_contains: "contains ''daily_sentiment'' ''sentiment''"
  unfolding contains_def by code_simp

lemma window_column_contains: "contains (''sentiment_compound_'' @ w) ''sentiment''"
proof -
  have "sublist ''sentiment'' ([] @ ''sentiment'' @ (''_compound_'' @ w))"
    by (rule sublist_appendI)
  then show ?thesis by (simp add: contains_def)
qed






section \<open>The example merge, evaluated\<close>

lemma scored_news_time: "news_with_time nine scored_news = Inr (rows scored_news)"
  by (simp add: news_with_time_def scored_news_def)


lemma scored_merge_rows:
  "length (merged_rows scored_merge) = 2 \<and>
   ts_date (Date (stock_bar (merged_rows scored_merge ! 0))) = 738552 \<and>
   ts_date (Date (stock_bar (merged_rows scored_merge ! 1))) = 738000 \<and>
   news_days (rows scored_news) = [738552] \<and>
   windows (rows scored_news) = [aksam, sabah]"
  by code_simp

section \<open>Claims\<close>

text \<open>
  C1. For every integer hour, \<open>get_time_of_day\<close> gives exactly one of the four windows:
  sabah iff the hour is in [9, 12), ogle iff in [12, 14), aksam iff in [14, 17), and diger for
  every other hour. The four labels are pairwise different strings.
\<close>

theorem get_time_of_day_windows:
  "(get_time_of_day h = sabah \<longleftrightarrow> 9 \<le> h \<and> h < 12) \<and>
   (get_time_of_day h = ogle \<longleftrightarrow> 12 \<le> h \<and> h < 14) \<and>
   (get_time_of_day h = aksam \<longleftrightarrow> 14 \<le> h \<and> h < 17) \<and>
   (get_time_of_day h = diger \<longleftrightarrow> \<not> (9 \<le> h \<and> h < 17)) \<and>
   distinct [sabah, ogle, aksam, diger] \<and>
   get_time_of_day h \<in> set [sabah, ogle, aksam, diger]"
  by (auto simp add: get_time_of_day_def sabah_def ogle_def aksam_def diger_def)









text \<open>
  C4. In the frame that \<open>merge_stock_and_news_data\<close> returns, no appended column whose name
  contains sentiment has a missing cell; and in a row whose day has no news, each such column
  holds 0 and the column daily_news_titles, when the frame has it, holds the text Haber yok.
\<close>

theorem merged_sentiment_filled:
  "\<forall>row \<in> set (merged_rows (merge_stock_and_news_data random stock_data news_data stock_symbol)).
     (\<forall>c \<in> set (new_columns (merge_stock_and_news_data random stock_data news_data stock_symbol)).
         contains c ''sentiment'' \<longrightarrow> entry_of row c \<noteq> Missing) \<and>
     (\<forall>df. news_with_time random news_data = Inr df \<longrightarrow>
         ts_date (Date (stock_bar row)) \<notin> set (news_days df) \<longrightarrow>
         (\<forall>c \<in> set (new_columns (merge_stock_and_news_data random stock_data news_data stock_symbol)).
             contains c ''sentiment'' \<longrightarrow> entry_of row c = Number 0) \<and>
         (''daily_news_titles'' \<in>
             set (new_columns (merge_stock_and_news_data random stock_data news_data stock_symbol)) \<longrightarrow>
           entry_of row ''daily_news_titles'' = Text ''Haber yok''))"
proof (cases "stock_data = []")
  case True
  then show ?thesis by (simp add: merge_stock_and_news_data_def)
next
  case ne: False
  show ?thesis
  proof (cases "merge_body random (stock_selection stock_data stock_symbol) news_data")
    case (Inl e)
    with ne show ?thesis by (simp add: merge_stock_and_news_data_def)
  next
    case (Inr m)
    with ne have M: "merge_stock_and_news_data random stock_data news_data stock_symbol = m"
      by (simp add: merge_stock_and_news_data_def)
    from merge_body_shape [OF Inr] obtain cols days cells where
      nc: "new_columns m = ''date'' # cols" and
      mr: "merged_rows m = map (\<lambda>row. fill_titles (fill_sentiment row))
             (left_merge (stock_selection stock_data stock_symbol) cols days cells)" and
      keys: "\<And>d. map fst (cells d) = cols" and
      days: "\<And>df. news_with_time random news_data = Inr df \<Longrightarrow> cols \<noteq> [] \<Longrightarrow> days = news_days df"
      by blast
    show ?thesis
      unfolding M
    proof (intro ballI conjI allI impI)
      fix row c
      assume row: "row \<in> set (merged_rows m)" and c: "c \<in> set (new_columns m)"
        and s: "contains c ''sentiment''"
      from c s nc date_not_sentiment have cc: "c \<in> set cols" and cd: "c \<noteq> ''date''" by auto
      from merged_row_entry [OF row [unfolded mr] keys cc cd]
      obtain e where "entry_of row c = filled_entry c e" by blast
      then show "entry_of row c \<noteq> Missing"
        using filled_entry_sentiment [OF s] by simp
    next
      fix row df c
      assume row: "row \<in> set (merged_rows m)" and c: "c \<in> set (new_columns m)"
        and s: "contains c ''sentiment''"
        and df: "news_with_time random news_data = Inr df"
        and nd: "ts_date (Date (stock_bar row)) \<notin> set (news_days df)"
      from c s nc date_not_sentiment have cc: "c \<in> set cols" and cd: "c \<noteq> ''date''" by auto
      from cc have "cols \<noteq> []" by auto
      with days [OF df] have d: "days = news_days df" by simp
      from merged_row_entry [OF row [unfolded mr] keys cc cd] nd
      have "entry_of row c = filled_entry c Missing" unfolding d by blast
      then show "entry_of row c = Number 0"
        using filled_entry_sentiment [OF s] by simp
    next
      fix row df
      assume row: "row \<in> set (merged_rows m)"
        and c: "''daily_news_titles'' \<in> set (new_columns m)"
        and df: "news_with_time random news_data = Inr df"
        and nd: "ts_date (Date (stock_bar row)) \<notin> set (news_days df)"
      from c nc have cc: "''daily_news_titles'' \<in> set cols" by auto
      have cd: "''daily_news_titles'' \<noteq> ''date''" by simp
      from cc have "cols \<noteq> []" by auto
      with days [OF df] have d: "days = news_days df" by simp
      from merged_row_entry [OF row [unfolded mr] keys cc cd] nd
      have "entry_of row ''daily_news_titles'' = filled_entry ''daily_news_titles'' Missing"
        unfolding d by blast
      then show "entry_of row ''daily_news_titles'' = Text ''Haber yok''"
        using filled_entry_titles by simp
    qed
  qed
qed


theorem merged_sentiment_filled_witness:
  "entry_of (merged_rows scored_merge ! 1) ''daily_sentiment'' = Number 0 \<and>
   entry_of (merged_rows scored_merge ! 1) (''sentiment_compound_'' @ sabah) = Number 0 \<and>
   entry_of (merged_rows scored_merge ! 1) ''daily_news_titles'' = Text ''Haber yok'' \<and>
   entry_of (merged_rows scored_merge ! 0) ''daily_sentiment'' \<noteq> Missing"
proof -
  have cols: "''daily_sentiment'' \<in> set (new_columns scored_merge) \<and>
      ''sentiment_compound_'' @ sabah \<in> set (new_columns scored_merge) \<and>
      ''daily_news_titles'' \<in> set (new_columns scored_merge)"
    by code_simp
  have r0: "merged_rows scored_merge ! 0 \<in> set (merged_rows scored_merge)"
    and r1: "merged_rows scored_merge ! 1 \<in> set (merged_rows scored_merge)"
    using scored_merge_rows by simp_all
  have quiet: "ts_date (Date (stock_bar (merged_rows scored_merge ! 1))) \<notin> set (news_days (rows scored_news))"
    using scored_merge_rows by simp
  note T = merged_sentiment_filled [of nine "[news_day_bar, aapl_bar, ixic_bar]" scored_news "''AAPL''",
      folded scored_merge_def]
  from T r0 cols daily_sentiment_contains
  have a: "entry_of (merged_rows scored_merge ! 0) ''daily_sentiment'' \<noteq> Missing"
    by blast
  from T r1 scored_news_time quiet
  have b: "(\<forall>c \<in> set (new_columns scored_merge).
             contains c ''sentiment'' \<longrightarrow> entry_of (merged_rows scored_merge ! 1) c = Number 0) \<and>
         (''daily_news_titles'' \<in> set (new_columns scored_merge) \<longrightarrow>
           entry_of (merged_rows scored_merge ! 1) ''daily_news_titles'' = Text ''Haber yok'')"
    by blast
  from b cols daily_sentiment_contains window_column_contains [of sabah] a
  show ?thesis by blast
qed












text \<open>
  C9. With the default empty exchange, \<open>format_stock_symbol\<close> is idempotent, and so is
  \<open>format_index_symbol\<close>: every output is upper-cased and stripped, and the values of
  both tables are fixed points.
\<close>

theorem format_symbols_idempotent:
  "format_stock_symbol (format_stock_symbol s []) [] = format_stock_symbol s [] \<and>
   format_index_symbol (format_index_symbol s) = format_index_symbol s"
proof
  define u where "u = strip (upper s)"
  have ufix: "strip (upper u) = u" by (simp add: u_def normalise_fixed)
  show "format_stock_symbol (format_stock_symbol s []) [] = format_stock_symbol s []"
  proof (cases "CHR ''.'' \<in> set u")
    case True
    then show ?thesis by (simp add: format_stock_symbol_def Let_def u_def [symmetric] ufix)
  next
    case False
    show ?thesis
    proof (cases "map_of common_symbols u")
      case None
      with False show ?thesis
        by (simp add: format_stock_symbol_def Let_def u_def [symmetric] ufix dict_get_def)
    next
      case (Some v)
      then have "v \<in> snd ` set common_symbols" by (force dest: map_of_SomeD)
      then have "strip (upper v) = v \<and> CHR ''.'' \<in> set v" by (rule stock_values_all [rule_format])
      with False Some show ?thesis
        by (simp add: format_stock_symbol_def Let_def u_def [symmetric] dict_get_def)
    qed
  qed
  show "format_index_symbol (format_index_symbol s) = format_index_symbol s"
  proof (cases "map_of index_map u")
    case None
    then show ?thesis
      by (simp add: format_index_symbol_def Let_def u_def [symmetric] ufix dict_get_def)
  next
    case (Some v)
    then have "v \<in> snd ` set index_map" by (force dest: map_of_SomeD)
    then have "strip (upper v) = v \<and> map_of index_map v = None" by (rule index_values_all [rule_format])
    with Some show ?thesis
      by (simp add: format_index_symbol_def Let_def u_def [symmetric] dict_get_def)
  qed
qed

text \<open>
  C10. Every \<open>sentiment_score\<close> of a frame that \<open>process_text_data\<close> returns lies in
  [-1, 1], given that the random draws of the fallback lie in [-1, 1). The frame has one score
  for each row: without an API key the score is the draw; with a key it is 0 for a row whose
  text is missing or shorter than 10 characters, 0 for a row whose sentiment call raises, and
  otherwise the number found in the answer clamped with max(-1, min(1, score)), or 0 when the
  answer holds no number.
\<close>

theorem process_text_data_scores:
  assumes draws: "\<forall>i. - 1 \<le> uniform g i \<and> uniform g i < 1"
    and ret: "process_text_data g df = Inr out"
  shows "length out = length df \<and>
     (\<forall>i < length out.
        - 1 \<le> sentiment_score (out ! i) \<and> sentiment_score (out ! i) \<le> 1 \<and>
        sentiment_score (out ! i) =
          (if GEMINI_API_KEY g = None \<or> GEMINI_API_KEY g = Some [] then uniform g i
           else
             let news_text = news_text_of (df ! i) in
             if news_text = [] \<or> length (strip news_text) < 10 then 0
             else case sentiment_response g i news_text of
                    Inl e \<Rightarrow> 0
                  | Inr t \<Rightarrow>
                      (case search_number (strip t) of
                         Some m \<Rightarrow> max (- 1) (min 1 (float_of_match m))
                       | None \<Rightarrow> 0)))"
proof (cases "df = []")
  case True
  with ret show ?thesis by (simp add: process_text_data_def)
next
  case ne: False
  show ?thesis
  proof (cases "GEMINI_API_KEY g = None \<or> GEMINI_API_KEY g = Some []")
    case True
    with ne ret have out: "out = map (\<lambda>(i, row).
                  \<lparr>source_row = row, sentiment_score = uniform g i, main_topics = None,
                   sentiment_category = sentiment_cut (uniform g i)\<rparr>)
                (zip [0..<length df] df)"
      by (auto simp add: process_text_data_def)
    have "sentiment_score (out ! i) = uniform g i" if "i < length df" for i
      using that by (simp add: out)
    moreover have "length out = length df" by (simp add: out)
    ultimately show ?thesis using draws True by (auto simp: less_imp_le)
  next
    case False
    obtain ss ts where st: "score_rows g 0 df ([], []) = (ss, ts)"
      by (cases "score_rows g 0 df ([], [])")
    from ret ne False st have len: "length ss = length df" and lent: "length ts = length df"
      and out: "out = map (\<lambda>(row, score, topic).
                    \<lparr>source_row = row, sentiment_score = score, main_topics = Some topic,
                     sentiment_category = sentiment_cut score\<rparr>)
                  (zip df (zip ss ts))"
      by (auto simp add: process_text_data_def split: if_splits)
    have lo: "length out = length df" using len lent by (simp add: out)
    from len st have "length (fst (score_rows g 0 df ([], []))) = length df" by simp
    from score_rows_exact [OF this] st
    have ss: "ss = map (\<lambda>(i, row). hd (row_scores g i row)) (zip [0..<length df] df)"
      by simp
    have sc: "sentiment_score (out ! i) = hd (row_scores g i (df ! i))" if "i < length df" for i
      using that len lent by (simp add: out ss)
    have rng: "- 1 \<le> hd (row_scores g i row) \<and> hd (row_scores g i row) \<le> 1" for i row
    proof -
      have "row_scores g i row \<noteq> []" using row_scores_nonempty [of g i row] by auto
      then have "hd (row_scores g i row) \<in> set (row_scores g i row)" by simp
      then show ?thesis by (rule row_scores_range)
    qed
    have key: "(if GEMINI_API_KEY g = None \<or> GEMINI_API_KEY g = Some [] then a else b) = b"
      for a b :: rat
      by (rule if_not_P [OF False])
    have "\<forall>i < length out.
        - 1 \<le> sentiment_score (out ! i) \<and> sentiment_score (out ! i) \<le> 1 \<and>
        sentiment_score (out ! i) = hd (row_scores g i (df ! i))"
      using lo sc rng by simp
    then show ?thesis
      unfolding key hd_row_scores [symmetric] using lo by auto
  qed
qed

lemma gemini_ok_run:
  "process_text_data gemini_ok [apple_row] =
     Inr [\<lparr>source_row = apple_row, sentiment_score = 1, main_topics = Some ''earnings'',
           sentiment_category = Some ''Pozitif''\<rparr>]"
  by code_simp

theorem process_text_data_scores_witness:
  "(\<exists>out. process_text_data gemini_ok [apple_row] = Inr out \<and>
      length out = 1 \<and> sentiment_score (out ! 0) = 1 \<and> sentiment_score (out ! 0) \<le> 1)"
proof -
  have d: "\<forall>i. - 1 \<le> uniform gemini_ok i \<and> uniform gemini_ok i < 1"
    by (simp add: gemini_ok_def)
  from process_text_data_scores [OF d gemini_ok_run] gemini_ok_run
  show ?thesis by simp
qed


text \<open>
  When the topics call of a row raises after its sentiment call has answered, the handler
  appends a second score for that row; the list is then longer than the frame, the assignment
  of the column raises, and no frame is returned.
\<close>

lemma process_text_data_topics_failure:
  "process_text_data gemini_topics_down [apple_row] = Inl ValueError"
  by code_simp

end
